theory Spec2Isabelle
  imports Main "HOL-Library.Word"
begin

unbundle bit_operations_syntax

section \<open>Python values, errors and the world the tasks act on\<close>

text \<open>
  The tasks of \<^verbatim>\<open>awsfabrictasks/s3/tasks.py\<close> are Fabric tasks: their arguments
  arrive as Python values (the default \<^verbatim>\<open>False\<close> or \<^verbatim>\<open>None\<close>, or whatever the
  caller passes), and the code tests them by truthiness (\<^verbatim>\<open>if search:\<close>,
  \<^verbatim>\<open>not overwrite\<close>).
\<close>

datatype pyval = PyNone | PyBool bool | PyInt int | PyStr string

fun truthy :: "pyval \<Rightarrow> bool" where
  "truthy PyNone = False"
| "truthy (PyBool b) = b"
| "truthy (PyInt i) = (i \<noteq> 0)"
| "truthy (PyStr s) = (s \<noteq> [])"

text \<open>
  Every way a task stops early is a value: \<^verbatim>\<open>fabric.api.abort(msg)\<close> raises
  \<^verbatim>\<open>SystemExit\<close> after printing the message; the other constructors are the
  exceptions of the collaborators.
\<close>

datatype error =
    Abort string
  | S3FileExistsError string
  | RemoteObjectNotFound string
  | LocalFileNotFound string
  | BucketNotFound string
  | TypeError string
  | ValueError string
  | RegexError string
  | EOFError

text \<open>A stored object: its bytes and the integrity tag (ETag) the service keeps for it.\<close>

record s3object =
  obj_contents :: string
  obj_etag :: string

type_synonym bucket_store = "string \<rightharpoonup> s3object"

record world =
  buckets :: "string \<rightharpoonup> bucket_store"
  files :: "string \<rightharpoonup> string"
  stdout :: string
  answers :: "bool list"
  prompts :: "string list"

type_synonym 'a result = "(error + 'a) \<times> world"

text \<open>Python 2 \<^verbatim>\<open>print x\<close>: the text of \<open>x\<close> and a newline on standard output.\<close>

definition py_print :: "string \<Rightarrow> world \<Rightarrow> world" where
  "py_print s w = w\<lparr>stdout := stdout w @ s @ [CHR 0x0A]\<rparr>"

text \<open>\<^verbatim>\<open>os.path.exists(localfile)\<close>.\<close>

definition exists_path :: "world \<Rightarrow> string \<Rightarrow> bool" where
  "exists_path w p = (files w p \<noteq> None)"

text \<open>
  \<^verbatim>\<open>fabric.contrib.console.confirm(question)\<close>: the question is shown and the user's
  answer is read; the pending answers are part of the world.
\<close>

definition confirm :: "string \<Rightarrow> world \<Rightarrow> bool result" where
  "confirm question w =
     (case answers w of
        [] \<Rightarrow> (Inl EOFError, w\<lparr>prompts := prompts w @ [question]\<rparr>)
      | a # rest \<Rightarrow> (Inr a, w\<lparr>prompts := prompts w @ [question], answers := rest\<rparr>))"

text \<open>\<^verbatim>\<open>str(x)\<close> of the values a task prints or formats.\<close>

fun digit_char :: "nat \<Rightarrow> char" where
  "digit_char n = char_of (48 + n)"

fun str_nat :: "nat \<Rightarrow> string" where
  "str_nat n = (if n < 10 then [digit_char n] else str_nat (n div 10) @ [digit_char (n mod 10)])"

declare str_nat.simps [simp del]

fun py_str :: "pyval \<Rightarrow> string" where
  "py_str PyNone = ''None''"
| "py_str (PyBool b) = (if b then ''True'' else ''False'')"
| "py_str (PyInt i) = (if i < 0 then CHR ''-'' # str_nat (nat (- i)) else str_nat (nat i))"
| "py_str (PyStr s) = s"

text \<open>\<^verbatim>\<open>sep.join(xs)\<close>.\<close>

fun join :: "string \<Rightarrow> string list \<Rightarrow> string" where
  "join sep [] = []"
| "join sep [x] = x"
| "join sep (x # y # ys) = x @ sep @ join sep (y # ys)"

section \<open>hashlib.md5: the MD5 digest of RFC 1321\<close>

type_synonym u32 = "32 word"

definition md5_s :: "nat list" where
  "md5_s = [7, 12, 17, 22, 7, 12, 17, 22, 7, 12, 17, 22, 7, 12, 17, 22,
            5, 9, 14, 20, 5, 9, 14, 20, 5, 9, 14, 20, 5, 9, 14, 20,
            4, 11, 16, 23, 4, 11, 16, 23, 4, 11, 16, 23, 4, 11, 16, 23,
            6, 10, 15, 21, 6, 10, 15, 21, 6, 10, 15, 21, 6, 10, 15, 21]"

definition md5_K :: "u32 list" where
  "md5_K = [0xd76aa478, 0xe8c7b756, 0x242070db, 0xc1bdceee,
            0xf57c0faf, 0x4787c62a, 0xa8304613, 0xfd469501,
            0x698098d8, 0x8b44f7af, 0xffff5bb1, 0x895cd7be,
            0x6b901122, 0xfd987193, 0xa679438e, 0x49b40821,
            0xf61e2562, 0xc040b340, 0x265e5a51, 0xe9b6c7aa,
            0xd62f105d, 0x02441453, 0xd8a1e681, 0xe7d3fbc8,
            0x21e1cde6, 0xc33707d6, 0xf4d50d87, 0x455a14ed,
            0xa9e3e905, 0xfcefa3f8, 0x676f02d9, 0x8d2a4c8a,
            0xfffa3942, 0x8771f681, 0x6d9d6122, 0xfde5380c,
            0xa4beea44, 0x4bdecfa9, 0xf6bb4b60, 0xbebfbc70,
            0x289b7ec6, 0xeaa127fa, 0xd4ef3085, 0x04881d05,
            0xd9d4d039, 0xe6db99e5, 0x1fa27cf8, 0xc4ac5665,
            0xf4292244, 0x432aff97, 0xab9423a7, 0xfc93a039,
            0x655b59c3, 0x8f0ccc92, 0xffeff47d, 0x85845dd1,
            0x6fa87e4f, 0xfe2ce6e0, 0xa3014314, 0x4e0811a1,
            0xf7537e82, 0xbd3af235, 0x2ad7d2bb, 0xeb86d391]"

definition rotl32 :: "u32 \<Rightarrow> nat \<Rightarrow> u32" where
  "rotl32 x n = push_bit n x OR drop_bit (32 - n) x"

text \<open>Padding: a 1 bit, zeros up to 56 modulo 64 bytes, the bit length as 8
  little-endian bytes.\<close>

definition md5_pad :: "nat list \<Rightarrow> nat list" where
  "md5_pad bs =
     bs @ [128] @ replicate ((119 - length bs mod 64) mod 64) 0
        @ map (\<lambda>i. (8 * length bs) div 256 ^ i mod 256) [0..<8]"

definition le_word :: "nat list \<Rightarrow> u32" where
  "le_word bs = of_nat (foldr (\<lambda>b acc. b + 256 * acc) bs 0)"

definition md5_words :: "nat list \<Rightarrow> u32 list" where
  "md5_words block = map (\<lambda>i. le_word (take 4 (drop (4 * i) block))) [0..<16]"

definition md5_blocks :: "nat list \<Rightarrow> nat list list" where
  "md5_blocks bs = map (\<lambda>i. take 64 (drop (64 * i) bs)) [0..<length bs div 64]"

type_synonym md5_state = "u32 \<times> u32 \<times> u32 \<times> u32"

fun md5_step :: "u32 list \<Rightarrow> md5_state \<Rightarrow> nat \<Rightarrow> md5_state" where
  "md5_step M (A, B, C, D) i =
     (let (F, g) =
            (if i < 16 then ((B AND C) OR (NOT B AND D), i)
             else if i < 32 then ((D AND B) OR (NOT D AND C), (5 * i + 1) mod 16)
             else if i < 48 then (B XOR C XOR D, (3 * i + 5) mod 16)
             else (C XOR (B OR NOT D), (7 * i) mod 16));
          F' = F + A + md5_K ! i + M ! g
      in (D, B + rotl32 F' (md5_s ! i), B, C))"

fun md5_block :: "md5_state \<Rightarrow> nat list \<Rightarrow> md5_state" where
  "md5_block (a0, b0, c0, d0) block =
     (case foldl (md5_step (md5_words block)) (a0, b0, c0, d0) [0..<64] of
        (A, B, C, D) \<Rightarrow> (a0 + A, b0 + B, c0 + C, d0 + D))"

definition md5_init :: md5_state where
  "md5_init = (0x67452301, 0xefcdab89, 0x98badcfe, 0x10325476)"

definition word_bytes :: "u32 \<Rightarrow> nat list" where
  "word_bytes x = map (\<lambda>i. unat (drop_bit (8 * i) x) mod 256) [0..<4]"

definition md5_digest :: "string \<Rightarrow> nat list" where
  "md5_digest msg =
     (case foldl md5_block md5_init (md5_blocks (md5_pad (map of_char msg))) of
        (a, b, c, d) \<Rightarrow> word_bytes a @ word_bytes b @ word_bytes c @ word_bytes d)"

definition hex_digit :: "nat \<Rightarrow> char" where
  "hex_digit n = (''0123456789abcdef'' ! n)"

definition hex_byte :: "nat \<Rightarrow> string" where
  "hex_byte b = [hex_digit (b div 16), hex_digit (b mod 16)]"

text \<open>\<^verbatim>\<open>hashlib.md5(data).hexdigest()\<close>.\<close>

definition md5_hexdigest :: "string \<Rightarrow> string" where
  "md5_hexdigest msg = concat (map hex_byte (md5_digest msg))"

section \<open>fnmatch.fnmatchcase: shell patterns\<close>

text \<open>
  \<^verbatim>\<open>fnmatch.translate\<close> turns a pattern into a regular expression, one item at a
  time: \<^verbatim>\<open>*\<close> is \<^verbatim>\<open>.*\<close>, \<^verbatim>\<open>?\<close> is \<^verbatim>\<open>.\<close>, \<^verbatim>\<open>[seq]\<close> and \<^verbatim>\<open>[!seq]\<close> are character
  sets, a \<^verbatim>\<open>[\<close> that is never closed and every other character stand for
  themselves. The expression is matched against the whole name, with \<^verbatim>\<open>.\<close>
  matching every character.
\<close>

datatype glob_item = Star | AnyChar | Lit char | CharClass bool "(char \<times> char) list"

definition cons_ok :: "'a \<Rightarrow> error + 'a list \<Rightarrow> error + 'a list" where
  "cons_ok x r = (case r of Inl e \<Rightarrow> Inl e | Inr xs \<Rightarrow> Inr (x # xs))"

text \<open>
  The scan of \<^verbatim>\<open>translate\<close> after a \<^verbatim>\<open>[\<close>: skip a leading \<^verbatim>\<open>!\<close>, skip a \<^verbatim>\<open>]\<close> that
  comes first, then run to the next \<^verbatim>\<open>]\<close>. \<open>None\<close> when there is none; otherwise the
  text between the brackets and the pattern after the closing one.
\<close>

definition class_split :: "string \<Rightarrow> (string \<times> string) option" where
  "class_split rest =
     (let (neg, r1) = (case rest of [] \<Rightarrow> ([], rest)
                       | c # r \<Rightarrow> if c = CHR ''!'' then ([c], r) else ([], rest));
          (first, r2) = (case r1 of [] \<Rightarrow> ([], r1)
                         | c # r \<Rightarrow> if c = CHR '']'' then ([c], r) else ([], r1));
          body = takeWhile (\<lambda>c. c \<noteq> CHR '']'') r2;
          after = dropWhile (\<lambda>c. c \<noteq> CHR '']'') r2
      in case after of [] \<Rightarrow> None | _ # remaining \<Rightarrow> Some (neg @ first @ body, remaining))"

text \<open>
  The members of a character set as the \<^verbatim>\<open>re\<close> module reads them: \<^verbatim>\<open>a-z\<close> is a
  range, a range whose end is below its start is the error \<^verbatim>\<open>bad character range\<close>,
  a \<^verbatim>\<open>-\<close> with nothing after it is itself.
\<close>

fun class_items :: "string \<Rightarrow> error + (char \<times> char) list" where
  "class_items [] = Inr []"
| "class_items (c # d # e # rest) =
     (if d = CHR ''-'' then
        (if (of_char e :: nat) < of_char c then Inl (RegexError ''bad character range'')
         else cons_ok (c, e) (class_items rest))
      else cons_ok (c, c) (class_items (d # e # rest)))"
| "class_items (c # rest) = cons_ok (c, c) (class_items rest)"

definition char_class :: "string \<Rightarrow> error + glob_item" where
  "char_class stuff =
     (let (neg, body) = (case stuff of [] \<Rightarrow> (False, stuff)
                         | c # r \<Rightarrow> if c = CHR ''!'' then (True, r) else (False, stuff))
      in case class_items body of Inl e \<Rightarrow> Inl e | Inr rs \<Rightarrow> Inr (CharClass neg rs))"

lemma dropWhile_Cons_shorter:
  "dropWhile P xs = y # r \<Longrightarrow> length r < length xs"
  using length_dropWhile_le [of P xs] by simp

lemma class_split_shorter:
  "class_split rest = Some (stuff, remaining) \<Longrightarrow> length remaining < Suc (length rest)"
  by (auto simp: class_split_def Let_def split: list.splits if_splits
           dest!: dropWhile_Cons_shorter)

function translate :: "string \<Rightarrow> error + glob_item list" where
  "translate [] = Inr []"
| "translate (c # pat) =
     (if c = CHR ''*'' then cons_ok Star (translate pat)
      else if c = CHR ''?'' then cons_ok AnyChar (translate pat)
      else if c = CHR ''['' then
        (case class_split pat of
           None \<Rightarrow> cons_ok (Lit c) (translate pat)
         | Some (stuff, remaining) \<Rightarrow>
             (case char_class stuff of
                Inl e \<Rightarrow> Inl e
              | Inr cls \<Rightarrow> cons_ok cls (translate remaining)))
      else cons_ok (Lit c) (translate pat))"
  by pat_completeness auto
termination
  by (relation "measure length") (auto dest: class_split_shorter)

definition in_class :: "(char \<times> char) list \<Rightarrow> char \<Rightarrow> bool" where
  "in_class rs d = list_ex (\<lambda>(lo, hi). (of_char lo :: nat) \<le> of_char d \<and> (of_char d :: nat) \<le> of_char hi) rs"

fun glob_match :: "glob_item list \<Rightarrow> string \<Rightarrow> bool" where
  "glob_match [] s = (s = [])"
| "glob_match (Star # ps) [] = glob_match ps []"
| "glob_match (Star # ps) (d # s) = (glob_match ps (d # s) \<or> glob_match (Star # ps) s)"
| "glob_match (AnyChar # ps) [] = False"
| "glob_match (AnyChar # ps) (d # s) = glob_match ps s"
| "glob_match (Lit c # ps) [] = False"
| "glob_match (Lit c # ps) (d # s) = (c = d \<and> glob_match ps s)"
| "glob_match (CharClass neg rs # ps) [] = False"
| "glob_match (CharClass neg rs # ps) (d # s) = (in_class rs d \<noteq> neg \<and> glob_match ps s)"

text \<open>\<^verbatim>\<open>fnmatchcase(name, pat)\<close>; a pattern that is not a string cannot be compiled.\<close>

definition fnmatchcase :: "string \<Rightarrow> pyval \<Rightarrow> error + bool" where
  "fnmatchcase name pat =
     (case pat of
        PyStr p \<Rightarrow> (case translate p of Inl e \<Rightarrow> Inl e | Inr items \<Rightarrow> Inr (glob_match items name))
      | _ \<Rightarrow> Inl (TypeError ''the pattern has no len()''))"

section \<open>The S3 wrapper the tasks call\<close>

text \<open>A bucket object is a handle on a bucket of the service; an \<open>S3File\<close> is a
  handle on one key of it.\<close>

record bucket =
  bucket_name :: string

record s3file =
  sf_bucket :: bucket
  sf_key :: string
  sf_head :: bool
  sf_etag :: "string option"

text \<open>
  What the tasks read of a listed key: the attributes of \<^verbatim>\<open>key.__dict__\<close> that the
  format strings of \<open>s3_ls\<close> name.
\<close>

record s3key =
  key_name :: string
  key_size :: pyval
  key_last_modified :: pyval
  key_mode :: pyval

text \<open>
  The client library's \<^verbatim>\<open>bucket.list(prefix, delimiter)\<close> is outside the repository:
  the tasks take it as the parameter \<open>lst\<close>, a function of the world, the bucket, the
  prefix and the delimiter (the empty string when the call passes none).
\<close>

type_synonym lister = "world \<Rightarrow> bucket \<Rightarrow> string \<Rightarrow> string \<Rightarrow> s3key list"

text \<open>
  Modelled from the spec: \<^verbatim>\<open>S3ConnectionWrapper.get_bucket_using_pattern\<close> lives in
  \<^verbatim>\<open>s3/api.py\<close>, which is not among the sources. The spec lists it as the client's
  \<^verbatim>\<open>get-bucket(name)\<close>: it hands out the bucket of that name, and fails when the
  service has none.
\<close>

definition get_bucket_using_pattern :: "world \<Rightarrow> string \<Rightarrow> error + bucket" where
  "get_bucket_using_pattern w bucketname =
     (if buckets w bucketname = None then Inl (BucketNotFound bucketname)
      else Inr \<lparr>bucket_name = bucketname\<rparr>)"

text \<open>
  Modelled from the spec: the constructor \<^verbatim>\<open>S3File(bucket, keyname, head=False)\<close> of
  \<^verbatim>\<open>s3/api.py\<close> (not among the sources) builds the spec's RemoteObjectHandle: a
  bucket, a key name, and no integrity tag fetched yet.
\<close>

definition S3File :: "bucket \<Rightarrow> string \<Rightarrow> bool \<Rightarrow> s3file" where
  "S3File b keyname head = \<lparr>sf_bucket = b, sf_key = keyname, sf_head = head, sf_etag = None\<rparr>"

text \<open>The object a handle points at, if the bucket and the key exist.\<close>

definition lookup_object :: "world \<Rightarrow> s3file \<Rightarrow> s3object option" where
  "lookup_object w f =
     (case buckets w (bucket_name (sf_bucket f)) of
        None \<Rightarrow> None
      | Some store \<Rightarrow> store (sf_key f))"

text \<open>
  Modelled from the spec: \<^verbatim>\<open>S3File.get_contents_to_filename\<close> of \<^verbatim>\<open>s3/api.py\<close> (not
  among the sources) delegates to the client's \<^verbatim>\<open>key.get_contents_to_filename\<close>:
  it writes the object's bytes to the local path it is given and returns \<^verbatim>\<open>None\<close>.
  The path is its positional argument; a call that passes none is a Python
  \<^verbatim>\<open>TypeError\<close>, raised before the body runs.
\<close>

definition get_contents_to_filename :: "s3file \<Rightarrow> string option \<Rightarrow> world \<Rightarrow> pyval result" where
  "get_contents_to_filename f arg w =
     (case arg of
        None \<Rightarrow> (Inl (TypeError ''get_contents_to_filename() takes exactly 2 arguments (1 given)''), w)
      | Some localfile \<Rightarrow>
          (case lookup_object w f of
             None \<Rightarrow> (Inl (RemoteObjectNotFound (sf_key f)), w)
           | Some obj \<Rightarrow> (Inr PyNone, w\<lparr>files := (files w)(localfile \<mapsto> obj_contents obj)\<rparr>)))"

text \<open>The integrity tag the service gives an object stored in one piece: the MD5
  hex digest of its bytes, in double quotes.\<close>

definition quoted :: "string \<Rightarrow> string" where
  "quoted s = CHR 0x22 # s @ [CHR 0x22]"

definition put_object :: "s3file \<Rightarrow> string \<Rightarrow> world \<Rightarrow> world" where
  "put_object f data w =
     (case buckets w (bucket_name (sf_bucket f)) of
        None \<Rightarrow> w
      | Some store \<Rightarrow>
          w\<lparr>buckets := (buckets w)(bucket_name (sf_bucket f) \<mapsto>
               store(sf_key f \<mapsto> \<lparr>obj_contents = data, obj_etag = quoted (md5_hexdigest data)\<rparr>))\<rparr>)"

text \<open>
  Modelled from the spec: \<^verbatim>\<open>S3File.set_contents_from_string(data, overwrite)\<close> of
  \<^verbatim>\<open>s3/api.py\<close> (not among the sources). The spec: create-object "fails if key
  exists and overwrite=false"; otherwise the call is the client's
  \<^verbatim>\<open>key.set_contents_from_string\<close>. The failure is the \<^verbatim>\<open>S3FileExistsError\<close> that
  \<open>s3_createfile\<close> catches.
\<close>

definition set_contents_from_string :: "s3file \<Rightarrow> string \<Rightarrow> pyval \<Rightarrow> world \<Rightarrow> unit result" where
  "set_contents_from_string f data overwrite w =
     (if lookup_object w f \<noteq> None \<and> \<not> truthy overwrite
      then (Inl (S3FileExistsError (''The key exists: '' @ sf_key f)), w)
      else (Inr (), put_object f data w))"

text \<open>
  Modelled from the spec: \<^verbatim>\<open>S3File.delete()\<close> of \<^verbatim>\<open>s3/api.py\<close> (not among the
  sources) is the client's \<^verbatim>\<open>key.delete()\<close>: afterwards the bucket has no object
  under the key.
\<close>

definition s3file_delete :: "s3file \<Rightarrow> world \<Rightarrow> unit result" where
  "s3file_delete f w =
     (case buckets w (bucket_name (sf_bucket f)) of
        None \<Rightarrow> (Inl (BucketNotFound (bucket_name (sf_bucket f))), w)
      | Some store \<Rightarrow>
          (Inr (), w\<lparr>buckets := (buckets w)(bucket_name (sf_bucket f) \<mapsto> store(sf_key f := None))\<rparr>))"

text \<open>
  Modelled from the spec: \<^verbatim>\<open>compute_localfile_md5sum(localfile)\<close> of \<^verbatim>\<open>s3/api.py\<close>
  (not among the sources). The spec, 4.1 step 2: the content hash of the local file,
  its bytes streamed through the digest, rendered as lowercase hexadecimal;
  \<^verbatim>\<open>LocalFileNotFound\<close> if the path is unreadable. The digest is MD5, as the name
  and the docstring of \<open>s3_same_file\<close> say.
\<close>

definition compute_localfile_md5sum :: "world \<Rightarrow> string \<Rightarrow> error + string" where
  "compute_localfile_md5sum w localfile =
     (case files w localfile of
        None \<Rightarrow> Inl (LocalFileNotFound localfile)
      | Some bytes \<Rightarrow> Inr (md5_hexdigest bytes))"

text \<open>Python's \<^verbatim>\<open>s.strip('"')\<close>: the quote characters at both ends are dropped.\<close>

definition strip_quotes :: "string \<Rightarrow> string" where
  "strip_quotes s =
     rev (dropWhile (\<lambda>c. c = CHR 0x22) (rev (dropWhile (\<lambda>c. c = CHR 0x22) s)))"

text \<open>
  Modelled from the spec: the metadata-only fetch of 4.1 step 1. A handle that
  carries a tag keeps it; otherwise the tag is fetched, and the fetch fails with
  \<^verbatim>\<open>RemoteObjectNotFound\<close> if the key does not exist.
\<close>

definition fetch_etag :: "world \<Rightarrow> s3file \<Rightarrow> error + string" where
  "fetch_etag w f =
     (case sf_etag f of
        Some tag \<Rightarrow> Inr tag
      | None \<Rightarrow>
          (case lookup_object w f of
             None \<Rightarrow> Inl (RemoteObjectNotFound (sf_key f))
           | Some obj \<Rightarrow> Inr (obj_etag obj)))"

text \<open>
  Modelled from the spec: \<^verbatim>\<open>S3File.etag_matches_localfile(localfile)\<close> of
  \<^verbatim>\<open>s3/api.py\<close> (not among the sources) is the spec's \<^verbatim>\<open>matches\<close> (4.1): fetch the
  tag, hash the local file, strip the quote characters around the tag the same way
  on both sides, and compare the two strings for exact equality.
\<close>

definition etag_matches_localfile :: "world \<Rightarrow> s3file \<Rightarrow> string \<Rightarrow> error + bool" where
  "etag_matches_localfile w f localfile =
     (case fetch_etag w f of
        Inl e \<Rightarrow> Inl e
      | Inr tag \<Rightarrow>
          (case compute_localfile_md5sum w localfile of
             Inl e \<Rightarrow> Inl e
           | Inr digest \<Rightarrow> Inr (strip_quotes tag = strip_quotes digest)))"

text \<open>
  Modelled from the spec: \<^verbatim>\<open>force_slashend(path)\<close> of \<^verbatim>\<open>awsfabrictasks/utils.py\<close>
  (not among the sources) returns the path slash-terminated: a path that does not
  end in \<^verbatim>\<open>/\<close> gets one.
\<close>

definition force_slashend :: "string \<Rightarrow> string" where
  "force_slashend path = (if path \<noteq> [] \<and> last path = CHR ''/'' then path else path @ ''/'')"

text \<open>
  Modelled from the spec: \<^verbatim>\<open>iter_bucketcontents(bucket, prefix, match, delimiter,
  formatter)\<close> of \<^verbatim>\<open>s3/api.py\<close> (not among the sources). The spec: "enumerate keys
  under a prefix with optional glob filtering"; the docstring of \<open>s3_ls\<close>: the
  pattern is matched "against the entire key name", with the \<^verbatim>\<open>fnmatch\<close> module,
  case-sensitively. It is a generator: the lines come one by one, and an
  exception ends them.
\<close>

fun iter_keys :: "pyval \<Rightarrow> (s3key \<Rightarrow> string) \<Rightarrow> s3key list \<Rightarrow> string list \<times> error option" where
  "iter_keys match formatter [] = ([], None)"
| "iter_keys match formatter (key # keys) =
     (if truthy match then
        (case fnmatchcase (key_name key) match of
           Inl e \<Rightarrow> ([], Some e)
         | Inr ok \<Rightarrow>
             if ok then (case iter_keys match formatter keys of
                           (lines, err) \<Rightarrow> (formatter key # lines, err))
             else iter_keys match formatter keys)
      else (case iter_keys match formatter keys of
              (lines, err) \<Rightarrow> (formatter key # lines, err)))"

definition iter_bucketcontents ::
  "lister \<Rightarrow> world \<Rightarrow> bucket \<Rightarrow> string \<Rightarrow> pyval \<Rightarrow> string \<Rightarrow> (s3key \<Rightarrow> string)
     \<Rightarrow> string list \<times> error option" where
  "iter_bucketcontents lst w b prefix match delimiter formatter =
     iter_keys match formatter (lst w b prefix delimiter)"

section \<open>s3_ls (tasks.py, lines 17-76)\<close>

text \<open>\<^verbatim>\<open>'{0:<n}'.format(v)\<close>: the text of \<open>v\<close>, padded with spaces on the right to
  \<open>n\<close> characters. With a format specification a \<^verbatim>\<open>bool\<close> is formatted as the
  integer it is.\<close>

definition ljust :: "nat \<Rightarrow> string \<Rightarrow> string" where
  "ljust n s = s @ replicate (n - length s) CHR '' ''"

fun format_left :: "nat \<Rightarrow> pyval \<Rightarrow> string" where
  "format_left n (PyBool b) = ljust n (if b then ''1'' else ''0'')"
| "format_left n v = ljust n (py_str v)"

definition styles :: "string list" where
  "styles = [''compact'', ''verbose'', ''nameonly'']"

text \<open>
  The three format strings of lines 58-68, applied to the fields of a key
  (\<^verbatim>\<open>formatstring.format(linesep=linesep, **key.__dict__)\<close>).
\<close>

definition format_compact :: "pyval \<Rightarrow> pyval \<Rightarrow> pyval \<Rightarrow> pyval \<Rightarrow> string" where
  "format_compact name sz last_modified mode =
     format_left 70 name @ '' '' @ format_left 10 sz @ '' '' @ format_left 25 last_modified
       @ '' '' @ py_str mode"

definition format_verbose :: "pyval \<Rightarrow> pyval \<Rightarrow> pyval \<Rightarrow> pyval \<Rightarrow> string" where
  "format_verbose name sz last_modified mode =
     ''name: '' @ py_str name @ [CHR 0x0A] @
     ''    size: '' @ py_str sz @ [CHR 0x0A] @
     ''    last_modified: '' @ py_str last_modified @ [CHR 0x0A] @
     ''    mode: '' @ py_str mode"

definition formatter :: "string \<Rightarrow> s3key \<Rightarrow> string" where
  "formatter style key =
     (if style = ''compact''
      then format_compact (PyStr (key_name key)) (key_size key) (key_last_modified key) (key_mode key)
      else if style = ''verbose''
      then format_verbose (PyStr (key_name key)) (key_size key) (key_last_modified key) (key_mode key)
      else key_name key)"

text \<open>
  Lines 70-71:
  \<^verbatim>\<open>
  if search:
      match = '*{0}*'.format(search)
  \<close>
\<close>

definition s3_ls_match :: "pyval \<Rightarrow> pyval \<Rightarrow> pyval" where
  "s3_ls_match search match =
     (if truthy search then PyStr (''*'' @ py_str search @ ''*'') else match)"

text \<open>
  \<^verbatim>\<open>
  def s3_ls(bucketname, prefix='', search=None, match=None, style='compact',
            delimiter=awsfab_settings.S3_DELIMITER):
      bucket = S3ConnectionWrapper.get_bucket_using_pattern(bucketname)
      styles = ('compact', 'verbose', 'nameonly')
      if not style in styles:
          abort('Invalid style: {0}. Use one of {1}'.format(style, ','.join(styles)))
      if style == 'compact':
          formatstring = '{name:<70} {size:<10} {last_modified:<25} {mode}'
          print formatstring.format(name='NAME', size='SIZE',
                                    last_modified='LAST MODIFIED', mode='MODE')
      elif style == 'verbose': ...
      elif style == 'nameonly': ...
      if search:
          match = '*{0}*'.format(search)
      formatter = lambda key: formatstring.format(linesep=linesep, **key.__dict__)
      for line in iter_bucketcontents(bucket, prefix=prefix, match=match,
                                      delimiter=delimiter, formatter=formatter):
          print line
  \<close>
\<close>

definition s3_ls ::
  "lister \<Rightarrow> string \<Rightarrow> string \<Rightarrow> pyval \<Rightarrow> pyval \<Rightarrow> string \<Rightarrow> string \<Rightarrow> world \<Rightarrow> unit result" where
  "s3_ls lst bucketname prefix search match style delimiter w =
     (case get_bucket_using_pattern w bucketname of
        Inl e \<Rightarrow> (Inl e, w)
      | Inr b \<Rightarrow>
          if style \<notin> set styles
          then (Inl (Abort (''Invalid style: '' @ style @ ''. Use one of '' @ join '','' styles)), w)
          else
            (let w1 = (if style = ''compact''
                       then py_print (format_compact (PyStr ''NAME'') (PyStr ''SIZE'')
                                        (PyStr ''LAST MODIFIED'') (PyStr ''MODE'')) w
                       else w)
             in case iter_bucketcontents lst w b prefix (s3_ls_match search match) delimiter
                       (formatter style) of
                  (lines, err) \<Rightarrow>
                    (case err of
                       None \<Rightarrow> (Inr (), foldl (\<lambda>w' line. py_print line w') w1 lines)
                     | Some e \<Rightarrow> (Inl e, foldl (\<lambda>w' line. py_print line w') w1 lines))))"

section \<open>s3_createfile (tasks.py, lines 94-109)\<close>

text \<open>
  \<^verbatim>\<open>
  def s3_createfile(bucketname, keyname, contents, overwrite=False):
      bucket = S3ConnectionWrapper.get_bucket_using_pattern(bucketname)
      s3file = S3File(bucket, keyname)
      try:
          s3file.set_contents_from_string(contents, overwrite)
      except S3FileExistsError, e:
          abort(str(e))
  \<close>
\<close>

definition s3_createfile :: "string \<Rightarrow> string \<Rightarrow> string \<Rightarrow> pyval \<Rightarrow> world \<Rightarrow> unit result" where
  "s3_createfile bucketname keyname contents overwrite w =
     (case get_bucket_using_pattern w bucketname of
        Inl e \<Rightarrow> (Inl e, w)
      | Inr b \<Rightarrow>
          (let s3file = S3File b keyname False in
           case set_contents_from_string s3file contents overwrite w of
             (Inl e, w') \<Rightarrow>
               (case e of
                  S3FileExistsError msg \<Rightarrow> (Inl (Abort msg), w')
                | _ \<Rightarrow> (Inl e, w'))
           | (Inr u, w') \<Rightarrow> (Inr (), w')))"

section \<open>s3_downloadfile (tasks.py, lines 141-155)\<close>

text \<open>
  \<^verbatim>\<open>
  def s3_downloadfile(bucketname, keyname, localfile, overwrite=False):
      if exists(localfile) and not overwrite:
          abort('Local file exists: {0}'.format(localfile))
      bucket = S3ConnectionWrapper.get_bucket_using_pattern(bucketname)
      s3file = S3File(bucket, keyname)
      print s3file.get_contents_to_filename()
  \<close>
  The last line passes no argument: \<open>localfile\<close> is used by the guard only.
\<close>

definition s3_downloadfile :: "string \<Rightarrow> string \<Rightarrow> string \<Rightarrow> pyval \<Rightarrow> world \<Rightarrow> unit result" where
  "s3_downloadfile bucketname keyname localfile overwrite w =
     (if exists_path w localfile \<and> \<not> truthy overwrite
      then (Inl (Abort (''Local file exists: '' @ localfile)), w)
      else
        (case get_bucket_using_pattern w bucketname of
           Inl e \<Rightarrow> (Inl e, w)
         | Inr b \<Rightarrow>
             (let s3file = S3File b keyname False in
              case get_contents_to_filename s3file None w of
                (Inl e, w') \<Rightarrow> (Inl e, w')
              | (Inr v, w') \<Rightarrow> (Inr (), py_print (py_str v) w'))))"

section \<open>s3_delete (tasks.py, lines 157-173)\<close>

text \<open>
  \<^verbatim>\<open>
  def s3_delete(bucketname, keyname, noconfirm=False):
      bucket = S3ConnectionWrapper.get_bucket_using_pattern(bucketname)
      s3file = S3File(bucket, keyname)
      if not parse_bool(noconfirm):
          if not confirm('Remove {0}?'.format(keyname)):
              abort('Aborted')
      s3file.delete()
  \<close>
  \<^verbatim>\<open>parse_bool\<close> is a helper of \<^verbatim>\<open>awsfabrictasks/utils.py\<close>, which is not among the
  sources: the task takes it as a parameter, a function from the argument to a
  boolean or an error.
\<close>

definition s3_delete ::
  "(pyval \<Rightarrow> error + bool) \<Rightarrow> string \<Rightarrow> string \<Rightarrow> pyval \<Rightarrow> world \<Rightarrow> unit result" where
  "s3_delete parse_bool bucketname keyname noconfirm w =
     (case get_bucket_using_pattern w bucketname of
        Inl e \<Rightarrow> (Inl e, w)
      | Inr b \<Rightarrow>
          (let s3file = S3File b keyname False in
           case parse_bool noconfirm of
             Inl e \<Rightarrow> (Inl e, w)
           | Inr no_confirm \<Rightarrow>
               if \<not> no_confirm then
                 (case confirm (''Remove '' @ keyname @ ''?'') w of
                    (Inl e, w') \<Rightarrow> (Inl e, w')
                  | (Inr answer, w') \<Rightarrow>
                      if \<not> answer then (Inl (Abort ''Aborted''), w')
                      else s3file_delete s3file w')
               else s3file_delete s3file w))"

section \<open>s3_same_file (tasks.py, lines 176-185)\<close>

text \<open>
  \<^verbatim>\<open>
  def s3_same_file(bucketname, keyname, localfile):
      bucket = S3ConnectionWrapper.get_bucket_using_pattern(bucketname)
      s3file = S3File(bucket, keyname, head=True)
      print s3file.etag_matches_localfile(localfile)
  \<close>
\<close>

definition s3_same_file :: "string \<Rightarrow> string \<Rightarrow> string \<Rightarrow> world \<Rightarrow> unit result" where
  "s3_same_file bucketname keyname localfile w =
     (case get_bucket_using_pattern w bucketname of
        Inl e \<Rightarrow> (Inl e, w)
      | Inr b \<Rightarrow>
          (let s3file = S3File b keyname True in
           case etag_matches_localfile w s3file localfile of
             Inl e \<Rightarrow> (Inl e, w)
           | Inr same \<Rightarrow> (Inr (), py_print (py_str (PyBool same)) w)))"

section \<open>s3_upload_dir (tasks.py, lines 188-196)\<close>

text \<open>\<^verbatim>\<open>repr\<close> of a list of keys: each key is \<^verbatim>\<open><Key: bucket,name>\<close>.\<close>

definition repr_key :: "bucket \<Rightarrow> s3key \<Rightarrow> string" where
  "repr_key b key = ''<Key: '' @ bucket_name b @ '','' @ key_name key @ ''>''"

definition repr_keys :: "bucket \<Rightarrow> s3key list \<Rightarrow> string" where
  "repr_keys b keys = ''['' @ join '', '' (map (repr_key b) keys) @ '']''"

text \<open>
  \<^verbatim>\<open>
  def s3_upload_dir(bucketname, local_dir, remote_dir):
      bucket = S3ConnectionWrapper.get_bucket_using_pattern(bucketname)
      remote_dir = force_slashend(remote_dir)
      currentfiles = list(bucket.list(prefix=remote_dir))
      print currentfiles
  \<close>
\<close>

definition s3_upload_dir :: "lister \<Rightarrow> string \<Rightarrow> string \<Rightarrow> string \<Rightarrow> world \<Rightarrow> unit result" where
  "s3_upload_dir lst bucketname local_dir remote_dir w =
     (case get_bucket_using_pattern w bucketname of
        Inl e \<Rightarrow> (Inl e, w)
      | Inr b \<Rightarrow>
          (let remote_dir' = force_slashend remote_dir;
               currentfiles = lst w b remote_dir' []
           in (Inr (), py_print (repr_keys b currentfiles) w)))"

section \<open>A small world to run the tasks in\<close>

text \<open>
  One bucket with three objects of the same five bytes: one stored in one piece
  (its tag is the quoted MD5 digest), one stored as a multipart upload (its tag is
  not the digest of its bytes), and one carrying the tag of the spec's example.
\<close>

definition demo_store :: bucket_store where
  "demo_store =
     [''notes.txt'' \<mapsto>
        \<lparr>obj_contents = ''hello'',
         obj_etag = quoted ''5d41402abc4b2a76b9719d911017c592''\<rparr>,
      ''parts.bin'' \<mapsto>
        \<lparr>obj_contents = ''hello'',
         obj_etag = quoted ''62109206880d38a4010a98e11243924a-1''\<rparr>,
      ''spec.txt'' \<mapsto>
        \<lparr>obj_contents = ''hello'',
         obj_etag = ''5d41402abc4b2a76b9719d911017c59''\<rparr>]"

definition demo_world :: world where
  "demo_world =
     \<lparr>buckets = [''backup'' \<mapsto> demo_store],
      files =[''/tmp/notes.txt'' \<mapsto> ''old'', ''/tmp/hello.txt'' \<mapsto> ''hello'',
               ''/tmp/empty.txt'' \<mapsto> []],
      stdout = [],
      answers = [False],
      prompts = []\<rparr>"

text \<open>A listing for the demo bucket: the keys under the prefix, in name order.\<close>

definition demo_keys :: "s3key list" where
  "demo_keys =
     [\<lparr>key_name = ''notes.txt'', key_size = PyInt 5,
        key_last_modified = PyStr ''2012-04-01T10:00:00.000Z'', key_mode = PyNone\<rparr>,
      \<lparr>key_name = ''parts.bin'', key_size = PyInt 5,
        key_last_modified = PyStr ''2012-04-02T10:00:00.000Z'', key_mode = PyNone\<rparr>,
      \<lparr>key_name = ''spec.txt'', key_size = PyInt 5,
        key_last_modified = PyStr ''2012-04-03T10:00:00.000Z'', key_mode = PyNone\<rparr>]"

definition demo_lister :: lister where
  "demo_lister w b prefix delimiter =
     (if bucket_name b = ''backup''
      then filter (\<lambda>k. take (length prefix) (key_name k) = prefix) demo_keys
      else [])"

text \<open>A reading of the flag for the demo runs: a boolean is itself, the strings
  \<^verbatim>\<open>true\<close> and \<^verbatim>\<open>false\<close> are what they say, anything else is an error.\<close>

definition demo_parse_bool :: "pyval \<Rightarrow> error + bool" where
  "demo_parse_bool v =
     (case v of
        PyBool b \<Rightarrow> Inr b
      | PyStr s \<Rightarrow> if s = ''true'' then Inr True
                  else if s = ''false'' then Inr False
                  else Inl (ValueError s)
      | _ \<Rightarrow> Inl (ValueError (py_str v)))"

section \<open>The digest on test vectors\<close>

lemma upt_0_numeral: "[0..<numeral n] = 0 # [1..<numeral n]"
  by (simp add: upt_rec)

lemma upt_1_numeral:
  "[Suc 0..<numeral n] = (if Suc 0 < numeral n then Suc 0 # [2..<numeral n] else [])"
  by (subst upt_rec) (simp add: numeral_2_eq_2)

lemma replicate_numeral_Cons: "replicate (numeral k) x = x # replicate (pred_numeral k) x"
  by (simp add: numeral_eq_Suc)

lemma md5_pad_hello:
  "md5_pad (map of_char ''hello'') =
     [104,101,108,108,111,128,0,0,0,0,0,0,0,0,0,0,0,0,0,0,0,0,0,0,0,0,0,0,0,0,0,0,
      0,0,0,0,0,0,0,0,0,0,0,0,0,0,0,0,0,0,0,0,0,0,0,0,40,0,0,0,0,0,0,0]"
  by (simp add: md5_pad_def upt_0_numeral upt_1_numeral replicate_numeral_Cons)

lemma md5_block_hello:
  "md5_block md5_init
     [104,101,108,108,111,128,0,0,0,0,0,0,0,0,0,0,0,0,0,0,0,0,0,0,0,0,0,0,0,0,0,0,
      0,0,0,0,0,0,0,0,0,0,0,0,0,0,0,0,0,0,0,0,0,0,0,0,40,0,0,0,0,0,0,0] =
   (0x2a40415d, 0x762a4bbc, 0x919d71b9, 0x92c51710)"
  by (simp add: md5_words_def le_word_def upt_0_numeral upt_1_numeral md5_init_def md5_K_def md5_s_def
        rotl32_def)

lemma md5_hexdigest_hello: "md5_hexdigest ''hello'' = ''5d41402abc4b2a76b9719d911017c592''"
  unfolding md5_hexdigest_def md5_digest_def md5_pad_hello
  by (simp add: md5_blocks_def md5_block_hello word_bytes_def upt_0_numeral upt_1_numeral hex_byte_def hex_digit_def)

lemma md5_pad_empty:
  "md5_pad (map of_char []) =
     [128,0,0,0,0,0,0,0,0,0,0,0,0,0,0,0,0,0,0,0,0,0,0,0,0,0,0,0,0,0,0,0,
      0,0,0,0,0,0,0,0,0,0,0,0,0,0,0,0,0,0,0,0,0,0,0,0,0,0,0,0,0,0,0,0]"
  by (simp add: md5_pad_def upt_0_numeral upt_1_numeral replicate_numeral_Cons)

lemma md5_block_empty:
  "md5_block md5_init
     [128,0,0,0,0,0,0,0,0,0,0,0,0,0,0,0,0,0,0,0,0,0,0,0,0,0,0,0,0,0,0,0,
      0,0,0,0,0,0,0,0,0,0,0,0,0,0,0,0,0,0,0,0,0,0,0,0,0,0,0,0,0,0,0,0] =
   (0xd98c1dd4, 0x04b2008f, 0x980980e9, 0x7e42f8ec)"
  by (simp add: md5_words_def le_word_def upt_0_numeral upt_1_numeral md5_init_def md5_K_def md5_s_def
        rotl32_def)

lemma md5_hexdigest_empty: "md5_hexdigest [] = ''d41d8cd98f00b204e9800998ecf8427e''"
  unfolding md5_hexdigest_def md5_digest_def md5_pad_empty
  by (simp add: md5_blocks_def md5_block_empty word_bytes_def upt_0_numeral upt_1_numeral hex_byte_def hex_digit_def)

section \<open>The shape of a digest, and quotes around a tag\<close>

lemma hex_digit_no_quote: "n < 16 \<Longrightarrow> hex_digit n \<noteq> CHR 0x22"
proof -
  assume "n < 16"
  then have "hex_digit n \<in> set ''0123456789abcdef''"
    unfolding hex_digit_def by (intro nth_mem) simp
  then show ?thesis by auto
qed

lemma word_bytes_lt: "b \<in> set (word_bytes x) \<Longrightarrow> b < 256"
  by (auto simp: word_bytes_def)

lemma md5_digest_lt: "b \<in> set (md5_digest m) \<Longrightarrow> b < 256"
  unfolding md5_digest_def
  by (cases "foldl md5_block md5_init (md5_blocks (md5_pad (map of_char m)))")
     (auto dest: word_bytes_lt)

lemma md5_hexdigest_no_quote: "CHR 0x22 \<notin> set (md5_hexdigest m)"
proof
  assume "CHR 0x22 \<in> set (md5_hexdigest m)"
  then obtain b where b: "b \<in> set (md5_digest m)" and q: "CHR 0x22 \<in> set (hex_byte b)"
    by (auto simp: md5_hexdigest_def)
  from b have "b < 256" by (rule md5_digest_lt)
  then have "b div 16 < 16" and "b mod 16 < 16" by simp_all
  then have "hex_digit (b div 16) \<noteq> CHR 0x22" and "hex_digit (b mod 16) \<noteq> CHR 0x22"
    by (simp_all add: hex_digit_no_quote)
  with q show False by (auto simp: hex_byte_def)
qed

lemma md5_hexdigest_length: "length (md5_hexdigest m) = 32"
  unfolding md5_hexdigest_def md5_digest_def
  by (cases "foldl md5_block md5_init (md5_blocks (md5_pad (map of_char m)))")
     (simp add: word_bytes_def upt_0_numeral upt_1_numeral hex_byte_def)

lemma dropWhile_absent: "q \<notin> set xs \<Longrightarrow> dropWhile (\<lambda>c. c = q) xs = xs"
  by (cases xs) auto

lemma strip_quotes_id: "CHR 0x22 \<notin> set s \<Longrightarrow> strip_quotes s = s"
  by (simp add: strip_quotes_def dropWhile_absent)

lemma strip_quotes_quoted: "CHR 0x22 \<notin> set s \<Longrightarrow> strip_quotes (quoted s) = s"
proof -
  assume a: "CHR 0x22 \<notin> set s"
  have 1: "dropWhile (\<lambda>c. c = CHR 0x22) (s @ [CHR 0x22]) = (if s = [] then [] else s @ [CHR 0x22])"
    using a by (cases s) auto
  show ?thesis
    using a by (simp add: strip_quotes_def quoted_def 1 dropWhile_absent)
qed

section \<open>Properties of compute_localfile_md5sum\<close>

text \<open>
  C9. The digest of a local file is a function of the file's bytes alone: whenever
  two computations read the same bytes (in the same world or another, under the same
  path or another), both return the MD5 hex digest of those bytes.
\<close>

theorem compute_localfile_md5sum_pure:
  assumes "files w localfile = Some bytes" and "files w' localfile' = Some bytes"
  shows "compute_localfile_md5sum w localfile = Inr (md5_hexdigest bytes) \<and>
         compute_localfile_md5sum w' localfile' = compute_localfile_md5sum w localfile"
  using assms by (simp add: compute_localfile_md5sum_def)

theorem compute_localfile_md5sum_pure_witness:
  "files demo_world ''/tmp/hello.txt'' = Some ''hello'' \<and>
   files (py_print ''again'' demo_world) ''/tmp/hello.txt'' = Some ''hello'' \<and>
   compute_localfile_md5sum demo_world ''/tmp/hello.txt'' = Inr (md5_hexdigest ''hello'') \<and>
   compute_localfile_md5sum (py_print ''again'' demo_world) ''/tmp/hello.txt'' =
     compute_localfile_md5sum demo_world ''/tmp/hello.txt''"
proof -
  have 1: "files demo_world ''/tmp/hello.txt'' = Some ''hello''"
    by (simp add: demo_world_def)
  have 2: "files (py_print ''again'' demo_world) ''/tmp/hello.txt'' = Some ''hello''"
    by (simp add: demo_world_def py_print_def)
  show ?thesis
    using 1 2 compute_localfile_md5sum_pure [OF 1 2] by simp
qed

section \<open>Properties of s3_same_file\<close>

text \<open>What \<open>s3_same_file\<close> prints when the bucket, the key and the local file exist.\<close>

lemma s3_same_file_eval:
  assumes "buckets w bucketname = Some store" and "store keyname = Some obj"
    and "files w localfile = Some bytes"
  shows "s3_same_file bucketname keyname localfile w =
           (Inr (), py_print (py_str (PyBool (strip_quotes (obj_etag obj) = md5_hexdigest bytes))) w)"
  using assms
  by (simp add: s3_same_file_def get_bucket_using_pattern_def S3File_def
        etag_matches_localfile_def fetch_etag_def lookup_object_def
        compute_localfile_md5sum_def strip_quotes_id md5_hexdigest_no_quote)

lemma demo_bucket: "buckets demo_world ''backup'' = Some demo_store"
  by (simp add: demo_world_def)

lemma demo_notes:
  "demo_store ''notes.txt'' =
     Some \<lparr>obj_contents = ''hello'', obj_etag = quoted ''5d41402abc4b2a76b9719d911017c592''\<rparr>"
  by (simp add: demo_store_def)

lemma demo_parts:
  "demo_store ''parts.bin'' =
     Some \<lparr>obj_contents = ''hello'', obj_etag = quoted ''62109206880d38a4010a98e11243924a-1''\<rparr>"
  by (simp add: demo_store_def)

lemma demo_spec:
  "demo_store ''spec.txt'' =
     Some \<lparr>obj_contents = ''hello'', obj_etag = ''5d41402abc4b2a76b9719d911017c59''\<rparr>"
  by (simp add: demo_store_def)

lemma demo_lookup:
  "lookup_object demo_world (S3File \<lparr>bucket_name = ''backup''\<rparr> keyname head) = demo_store keyname"
  by (simp add: lookup_object_def S3File_def demo_bucket)

lemma demo_hello_file: "files demo_world ''/tmp/hello.txt'' = Some ''hello''"
  by (simp add: demo_world_def)

lemma demo_empty_file: "files demo_world ''/tmp/empty.txt'' = Some []"
  by (simp add: demo_world_def)

text \<open>
  C1, as the code has it. The comparison reads the object's integrity tag, not its
  bytes: an object stored in several parts carries a tag that is not the MD5 digest
  of its bytes, and \<open>s3_same_file\<close> prints \<^verbatim>\<open>False\<close> for it although the local file
  has the very same bytes.
\<close>

theorem s3_same_file_multipart_counterexample:
  "map_option obj_contents
     (lookup_object demo_world (S3File \<lparr>bucket_name = ''backup''\<rparr> ''parts.bin'' True)) =
     files demo_world ''/tmp/hello.txt'' \<and>
   s3_same_file ''backup'' ''parts.bin'' ''/tmp/hello.txt'' demo_world =
     (Inr (), py_print ''False'' demo_world)"
proof -
  have "strip_quotes (quoted ''62109206880d38a4010a98e11243924a-1'') \<noteq> md5_hexdigest ''hello''"
    by (simp add: md5_hexdigest_hello strip_quotes_def quoted_def)
  then show ?thesis
    using s3_same_file_eval [OF demo_bucket demo_parts demo_hello_file]
    by (simp add: demo_lookup demo_parts demo_hello_file)
qed

text \<open>
  C1, amended. For a remote object whose integrity tag is the quoted MD5 hex digest
  of its bytes (what the service gives an object stored in one piece) and a local
  file that exists: if the bytes are identical, \<open>s3_same_file\<close> prints \<^verbatim>\<open>True\<close>; if
  the two MD5 digests differ, it prints \<^verbatim>\<open>False\<close>; and whenever the two MD5
  digests are equal it prints \<^verbatim>\<open>True\<close>, so two different contents with the same
  digest print \<^verbatim>\<open>True\<close> as well. Nothing but the printed line changes in the world.
\<close>

theorem s3_same_file_md5_tag:
  assumes "buckets w bucketname = Some store" and "store keyname = Some obj"
    and "files w localfile = Some bytes"
    and "obj_etag obj = quoted (md5_hexdigest (obj_contents obj))"
  shows "(obj_contents obj = bytes \<longrightarrow>
            s3_same_file bucketname keyname localfile w = (Inr (), py_print ''True'' w)) \<and>
         (md5_hexdigest (obj_contents obj) \<noteq> md5_hexdigest bytes \<longrightarrow>
            s3_same_file bucketname keyname localfile w = (Inr (), py_print ''False'' w)) \<and>
         (md5_hexdigest (obj_contents obj) = md5_hexdigest bytes \<longrightarrow>
            s3_same_file bucketname keyname localfile w = (Inr (), py_print ''True'' w))"
  using assms
  by (simp add: s3_same_file_eval strip_quotes_quoted md5_hexdigest_no_quote)

theorem s3_same_file_md5_tag_witness:
  "buckets demo_world ''backup'' \<noteq> None \<and>
   files demo_world ''/tmp/hello.txt'' = Some ''hello'' \<and>
   files demo_world ''/tmp/empty.txt'' = Some [] \<and>
   md5_hexdigest ''hello'' \<noteq> md5_hexdigest [] \<and>
   s3_same_file ''backup'' ''notes.txt'' ''/tmp/hello.txt'' demo_world =
     (Inr (), py_print ''True'' demo_world) \<and>
   s3_same_file ''backup'' ''notes.txt'' ''/tmp/empty.txt'' demo_world =
     (Inr (), py_print ''False'' demo_world)"
proof -
  let ?obj = "\<lparr>obj_contents = ''hello'', obj_etag = quoted ''5d41402abc4b2a76b9719d911017c592''\<rparr>"
  have t: "obj_etag ?obj = quoted (md5_hexdigest (obj_contents ?obj))"
    by (simp add: md5_hexdigest_hello)
  have ne: "md5_hexdigest (obj_contents ?obj) \<noteq> md5_hexdigest []"
    by (simp add: md5_hexdigest_hello md5_hexdigest_empty)
  show ?thesis
    using ne
      s3_same_file_md5_tag [OF demo_bucket demo_notes demo_hello_file t]
      s3_same_file_md5_tag [OF demo_bucket demo_notes demo_empty_file t]
    by (simp add: demo_bucket demo_hello_file demo_empty_file)
qed

text \<open>
  C2, as the code has it. The MD5 digest of the bytes \<^verbatim>\<open>hello\<close> has 32 hexadecimal
  digits, \<^verbatim>\<open>5d41402abc4b2a76b9719d911017c592\<close>; the tag of the example has 31 (the
  last digit is missing), and against it \<open>s3_same_file\<close> prints \<^verbatim>\<open>False\<close>.
\<close>

theorem s3_same_file_truncated_digest_counterexample:
  "files demo_world ''/tmp/hello.txt'' = Some ''hello'' \<and>
   map_option obj_etag
     (lookup_object demo_world (S3File \<lparr>bucket_name = ''backup''\<rparr> ''spec.txt'' True)) =
     Some ''5d41402abc4b2a76b9719d911017c59'' \<and>
   s3_same_file ''backup'' ''spec.txt'' ''/tmp/hello.txt'' demo_world =
     (Inr (), py_print ''False'' demo_world)"
proof -
  have "strip_quotes ''5d41402abc4b2a76b9719d911017c59'' \<noteq> md5_hexdigest ''hello''"
    by (simp add: md5_hexdigest_hello strip_quotes_def)
  then show ?thesis
    using s3_same_file_eval [OF demo_bucket demo_spec demo_hello_file]
    by (simp add: demo_lookup demo_spec demo_hello_file)
qed

text \<open>
  C2, amended. For a local file whose contents are exactly the bytes \<^verbatim>\<open>hello\<close> and
  a remote object whose integrity tag is the digest
  \<^verbatim>\<open>5d41402abc4b2a76b9719d911017c592\<close>, bare or in double quotes, \<open>s3_same_file\<close>
  prints \<^verbatim>\<open>True\<close>.
\<close>

theorem s3_same_file_hello:
  assumes "buckets w bucketname = Some store" and "store keyname = Some obj"
    and "files w localfile = Some ''hello''"
    and "obj_etag obj = ''5d41402abc4b2a76b9719d911017c592'' \<or>
         obj_etag obj = quoted ''5d41402abc4b2a76b9719d911017c592''"
  shows "s3_same_file bucketname keyname localfile w = (Inr (), py_print ''True'' w)"
proof -
  have "strip_quotes (obj_etag obj) = md5_hexdigest ''hello''"
    using assms(4) by (auto simp: md5_hexdigest_hello strip_quotes_def quoted_def)
  then show ?thesis
    using assms(1-3) by (simp add: s3_same_file_eval)
qed

theorem s3_same_file_hello_witness:
  "buckets demo_world ''backup'' \<noteq> None \<and>
   files demo_world ''/tmp/hello.txt'' = Some ''hello'' \<and>
   map_option obj_etag
     (lookup_object demo_world (S3File \<lparr>bucket_name = ''backup''\<rparr> ''notes.txt'' True)) =
     Some (quoted ''5d41402abc4b2a76b9719d911017c592'') \<and>
   s3_same_file ''backup'' ''notes.txt'' ''/tmp/hello.txt'' demo_world =
     (Inr (), py_print ''True'' demo_world)"
proof -
  let ?obj = "\<lparr>obj_contents = ''hello'', obj_etag = quoted ''5d41402abc4b2a76b9719d911017c592''\<rparr>"
  have t: "obj_etag ?obj = ''5d41402abc4b2a76b9719d911017c592'' \<or>
           obj_etag ?obj = quoted ''5d41402abc4b2a76b9719d911017c592''"
    by simp
  show ?thesis
    using s3_same_file_hello [OF demo_bucket demo_notes demo_hello_file t]
    by (simp add: demo_bucket demo_lookup demo_notes demo_hello_file)
qed

section \<open>Properties of s3_createfile\<close>

text \<open>
  C6. Whenever the key already exists in the bucket and \<open>overwrite\<close> is false,
  \<open>s3_createfile\<close> stops with an abort, and the world it leaves, the stored object
  included, is the one it started in.
\<close>

theorem s3_createfile_existing_aborts:
  assumes "buckets w bucketname = Some store" and "store keyname = Some obj"
    and "\<not> truthy overwrite"
  shows "\<exists>msg. s3_createfile bucketname keyname contents overwrite w = (Inl (Abort msg), w)"
  using assms
  by (simp add: s3_createfile_def get_bucket_using_pattern_def S3File_def
        set_contents_from_string_def lookup_object_def)

theorem s3_createfile_existing_aborts_witness:
  "buckets demo_world ''backup'' \<noteq> None \<and>
   lookup_object demo_world (S3File \<lparr>bucket_name = ''backup''\<rparr> ''notes.txt'' False) \<noteq> None \<and>
   \<not> truthy (PyBool False) \<and>
   (\<exists>msg. s3_createfile ''backup'' ''notes.txt'' ''new text'' (PyBool False) demo_world =
      (Inl (Abort msg), demo_world))"
proof -
  have t: "\<not> truthy (PyBool False)" by simp
  show ?thesis
    using s3_createfile_existing_aborts [OF demo_bucket demo_notes t, of "''new text''"]
    by (simp add: demo_bucket demo_lookup demo_notes)
qed

section \<open>Properties of s3_downloadfile\<close>

text \<open>
  C3, as the code has it. \<open>s3_downloadfile\<close> never hands \<open>localfile\<close> to the call
  that is to write it: whatever the arguments, the local files are left as they
  were.
\<close>

lemma s3_downloadfile_files_unchanged:
  "files (snd (s3_downloadfile bucketname keyname localfile overwrite w)) = files w"
  by (simp add: s3_downloadfile_def get_contents_to_filename_def split: sum.splits)

text \<open>
  C3 at a concrete input: the key exists, the local path does not, \<open>overwrite\<close> is
  the default. The call without its argument fails and nothing is written.
\<close>

theorem s3_downloadfile_fresh_path_not_written:
  "s3_downloadfile ''backup'' ''notes.txt'' ''/tmp/new.txt'' (PyBool False) demo_world =
     (Inl (TypeError ''get_contents_to_filename() takes exactly 2 arguments (1 given)''),
      demo_world)"
  by (simp add: s3_downloadfile_def exists_path_def get_bucket_using_pattern_def
        get_contents_to_filename_def demo_world_def)

text \<open>
  C4. Whenever the local path already exists and \<open>overwrite\<close> is false (the default
  \<^verbatim>\<open>False\<close>, or any other falsy value), \<open>s3_downloadfile\<close> stops with the abort
  \<^verbatim>\<open>Local file exists: <path>\<close>, and the world it leaves, the local file included,
  is the one it started in.
\<close>

theorem s3_downloadfile_existing_aborts:
  assumes "exists_path w localfile" and "\<not> truthy overwrite"
  shows "s3_downloadfile bucketname keyname localfile overwrite w =
           (Inl (Abort (''Local file exists: '' @ localfile)), w)"
  using assms by (simp add: s3_downloadfile_def)

theorem s3_downloadfile_existing_aborts_witness:
  "exists_path demo_world ''/tmp/notes.txt'' \<and> \<not> truthy (PyBool False) \<and>
   s3_downloadfile ''backup'' ''notes.txt'' ''/tmp/notes.txt'' (PyBool False) demo_world =
     (Inl (Abort ''Local file exists: /tmp/notes.txt''), demo_world)"
proof -
  have e: "exists_path demo_world ''/tmp/notes.txt''"
    by (simp add: exists_path_def demo_world_def)
  have t: "\<not> truthy (PyBool False)" by simp
  show ?thesis
    using e t s3_downloadfile_existing_aborts [OF e t, of "''backup''" "''notes.txt''"] by simp
qed

section \<open>Properties of s3_ls\<close>

text \<open>The pattern \<^verbatim>\<open>**\<close> matches every name, so filtering by it keeps every key.\<close>

lemma translate_star_star: "translate ''**'' = Inr [Star, Star]"
  by (simp add: cons_ok_def)

lemma glob_match_star_star: "glob_match [Star, Star] s"
  by (induction s) simp_all

lemma fnmatchcase_star_star: "fnmatchcase name (PyStr ''**'') = Inr True"
  unfolding fnmatchcase_def pyval.case translate_star_star
  by (simp add: glob_match_star_star)

lemma iter_keys_star_star:
  "iter_keys (PyStr ''**'') fmt keys = iter_keys PyNone fmt keys"
proof (induction keys)
  case Nil
  show ?case by simp
next
  case (Cons key keys)
  have "iter_keys (PyStr ''**'') fmt (key # keys) =
          (case iter_keys (PyStr ''**'') fmt keys of (lines, err) \<Rightarrow> (fmt key # lines, err))"
    unfolding iter_keys.simps fnmatchcase_star_star by simp
  with Cons show ?case by simp
qed

lemma s3_ls_match_search: "foo \<noteq> [] \<Longrightarrow> s3_ls_match (PyStr foo) m = PyStr (''*'' @ foo @ ''*'')"
  by (simp add: s3_ls_match_def)

lemma s3_ls_match_none: "s3_ls_match PyNone m = m"
  by (simp add: s3_ls_match_def)

lemma s3_ls_match_empty: "s3_ls_match (PyStr []) m = m"
  by (simp add: s3_ls_match_def)

lemma iter_bucketcontents_star_star:
  "iter_bucketcontents lst w b prefix (PyStr ''**'') delimiter fmt =
   iter_bucketcontents lst w b prefix PyNone delimiter fmt"
  by (simp only: iter_bucketcontents_def iter_keys_star_star)

text \<open>
  C5. For every bucket, prefix, delimiter, style and string \<open>foo\<close>, and whatever
  the bucket lists, \<open>s3_ls\<close> with \<^verbatim>\<open>search=foo\<close> (and no \<open>match\<close>) returns the same
  result and leaves the same output as \<open>s3_ls\<close> with \<^verbatim>\<open>match="*foo*"\<close> (and no
  \<open>search\<close>). For the empty \<open>foo\<close> the first call filters nothing and the second
  filters by \<^verbatim>\<open>**\<close>, which every name matches.
\<close>

theorem s3_ls_search_is_match:
  "s3_ls lst bucketname prefix (PyStr foo) PyNone style delimiter w =
   s3_ls lst bucketname prefix PyNone (PyStr (''*'' @ foo @ ''*'')) style delimiter w"
proof (cases "foo = []")
  case True
  have "s3_ls_match PyNone (PyStr (''*'' @ foo @ ''*'')) = PyStr ''**''"
    using True by (simp add: s3_ls_match_none)
  moreover have "s3_ls_match (PyStr foo) PyNone = PyNone"
    using True by (simp add: s3_ls_match_empty)
  ultimately show ?thesis
    unfolding s3_ls_def by (simp only: iter_bucketcontents_star_star)
next
  case False
  then have "s3_ls_match (PyStr foo) PyNone = s3_ls_match PyNone (PyStr (''*'' @ foo @ ''*''))"
    by (simp add: s3_ls_match_none s3_ls_match_search)
  then show ?thesis
    unfolding s3_ls_def by (simp only:)
qed

text \<open>A run on the demo bucket: of its three keys, \<^verbatim>\<open>*notes*\<close> keeps one.\<close>

lemma demo_bucket_handle:
  "get_bucket_using_pattern demo_world ''backup'' = Inr \<lparr>bucket_name = ''backup''\<rparr>"
  by (simp add: get_bucket_using_pattern_def demo_bucket)

lemma demo_listing: "demo_lister demo_world \<lparr>bucket_name = ''backup''\<rparr> [] ''/'' = demo_keys"
  by (simp add: demo_lister_def)

lemma translate_notes:
  "translate ''*notes*'' =
     Inr [Star, Lit CHR ''n'', Lit CHR ''o'', Lit CHR ''t'', Lit CHR ''e'', Lit CHR ''s'', Star]"
  by (simp add: cons_ok_def)

lemma fnmatchcase_notes:
  "fnmatchcase ''notes.txt'' (PyStr ''*notes*'') = Inr True"
  "fnmatchcase ''parts.bin'' (PyStr ''*notes*'') = Inr False"
  "fnmatchcase ''spec.txt'' (PyStr ''*notes*'') = Inr False"
  unfolding fnmatchcase_def pyval.case translate_notes by simp_all

lemma iter_demo_keys:
  "iter_keys (PyStr ''*notes*'') (formatter ''nameonly'') demo_keys = ([''notes.txt''], None)"
  by (simp add: demo_keys_def fnmatchcase_notes formatter_def)

lemma s3_ls_demo_match:
  "s3_ls demo_lister ''backup'' [] PyNone (PyStr ''*notes*'') ''nameonly'' ''/'' demo_world =
     (Inr (), py_print ''notes.txt'' demo_world)"
  by (simp add: s3_ls_def demo_bucket_handle iter_bucketcontents_def demo_listing s3_ls_match_none
        iter_demo_keys styles_def)

theorem s3_ls_search_is_match_witness:
  "s3_ls demo_lister ''backup'' [] (PyStr ''notes'') PyNone ''nameonly'' ''/'' demo_world =
     (Inr (), py_print ''notes.txt'' demo_world) \<and>
   s3_ls demo_lister ''backup'' [] PyNone (PyStr ''*notes*'') ''nameonly'' ''/'' demo_world =
     (Inr (), py_print ''notes.txt'' demo_world)"
  using s3_ls_search_is_match [of demo_lister "''backup''" "[]" "''notes''" "''nameonly''" "''/''" demo_world]
  by (simp add: s3_ls_demo_match)

text \<open>
  C10. With \<open>search\<close> the empty string, lines 70-71 leave \<open>match\<close> as it was
  given (a pattern or \<^verbatim>\<open>None\<close>), and the whole call behaves as the call with
  \<open>search\<close> not provided.
\<close>

theorem s3_ls_empty_search:
  "s3_ls_match (PyStr []) match = match \<and>
   s3_ls lst bucketname prefix (PyStr []) match style delimiter w =
   s3_ls lst bucketname prefix PyNone match style delimiter w"
  unfolding s3_ls_def by (simp only: s3_ls_match_none s3_ls_match_empty)

theorem s3_ls_empty_search_witness:
  "s3_ls_match (PyStr []) (PyStr ''*notes*'') = PyStr ''*notes*'' \<and>
   s3_ls_match (PyStr []) PyNone = PyNone \<and>
   s3_ls demo_lister ''backup'' [] (PyStr []) (PyStr ''*notes*'') ''nameonly'' ''/'' demo_world =
     (Inr (), py_print ''notes.txt'' demo_world)"
  using s3_ls_empty_search [of "PyStr ''*notes*''" demo_lister "''backup''" "[]" "''nameonly''" "''/''" demo_world]
    s3_ls_empty_search [of PyNone demo_lister "''backup''" "[]" "''nameonly''" "''/''" demo_world]
  by (simp add: s3_ls_demo_match)

section \<open>Properties of s3_upload_dir\<close>

lemma force_slashend_last: "last (force_slashend path) = CHR ''/''"
  by (simp add: force_slashend_def)

text \<open>
  C8. \<open>s3_upload_dir\<close> does one thing: when the bucket exists it prints the keys the
  bucket lists under \<open>remote_dir\<close> with a slash at its end (and fails before
  printing when there is no such bucket). The buckets and the local files after the
  call are those before it; \<open>local_dir\<close> is never read.
\<close>

theorem s3_upload_dir_only_lists:
  "s3_upload_dir lst bucketname local_dir remote_dir w =
     (if buckets w bucketname = None then (Inl (BucketNotFound bucketname), w)
      else (Inr (),
            py_print (repr_keys \<lparr>bucket_name = bucketname\<rparr>
                        (lst w \<lparr>bucket_name = bucketname\<rparr> (force_slashend remote_dir) [])) w)) \<and>
   last (force_slashend remote_dir) = CHR ''/'' \<and>
   buckets (snd (s3_upload_dir lst bucketname local_dir remote_dir w)) = buckets w \<and>
   files (snd (s3_upload_dir lst bucketname local_dir remote_dir w)) = files w"
  by (simp add: s3_upload_dir_def get_bucket_using_pattern_def force_slashend_last py_print_def)

lemma demo_listing_site:
  "demo_lister demo_world \<lparr>bucket_name = ''backup''\<rparr> ''site/'' [] = []"
  by (simp add: demo_lister_def demo_keys_def)

theorem s3_upload_dir_only_lists_witness:
  "s3_upload_dir demo_lister ''backup'' ''/home/me/site'' ''site'' demo_world =
     (Inr (), py_print ''[]'' demo_world) \<and>
   force_slashend ''site'' = ''site/'' \<and>
   buckets (snd (s3_upload_dir demo_lister ''backup'' ''/home/me/site'' ''site'' demo_world)) =
     buckets demo_world \<and>
   files (snd (s3_upload_dir demo_lister ''backup'' ''/home/me/site'' ''site'' demo_world)) =
     files demo_world"
  using s3_upload_dir_only_lists [of demo_lister "''backup''" "''/home/me/site''" "''site''" demo_world]
  by (simp add: demo_bucket demo_listing_site repr_keys_def py_print_def force_slashend_def)

section \<open>Properties of s3_delete\<close>

text \<open>
  C7. In a bucket that exists: when \<open>noconfirm\<close> parses to false the user is asked
  \<^verbatim>\<open>Remove <key>?\<close>, and if the answer is no the task stops with the abort
  \<^verbatim>\<open>Aborted\<close> and the buckets are as they were; when \<open>noconfirm\<close> parses to true
  nothing is asked and the key is gone from the bucket.
\<close>

theorem s3_delete_confirmation:
  assumes "buckets w bucketname = Some store"
  shows "(parse_bool noconfirm = Inr False \<longrightarrow>
            prompts (snd (s3_delete parse_bool bucketname keyname noconfirm w)) =
              prompts w @ [''Remove '' @ keyname @ ''?'']) \<and>
         (parse_bool noconfirm = Inr False \<and> answers w = False # rest \<longrightarrow>
            s3_delete parse_bool bucketname keyname noconfirm w =
              (Inl (Abort ''Aborted''),
               w\<lparr>prompts := prompts w @ [''Remove '' @ keyname @ ''?''], answers := rest\<rparr>)) \<and>
         (parse_bool noconfirm = Inr True \<longrightarrow>
            s3_delete parse_bool bucketname keyname noconfirm w =
              (Inr (), w\<lparr>buckets := (buckets w)(bucketname \<mapsto> store(keyname := None))\<rparr>))"
proof -
  have b: "get_bucket_using_pattern w bucketname = Inr \<lparr>bucket_name = bucketname\<rparr>"
    using assms by (simp add: get_bucket_using_pattern_def)
  have del: "s3file_delete (S3File \<lparr>bucket_name = bucketname\<rparr> keyname False) w' =
               (Inr (), w'\<lparr>buckets := (buckets w')(bucketname \<mapsto> store(keyname := None))\<rparr>)"
    if "buckets w' = buckets w" for w'
    using assms that by (simp add: s3file_delete_def S3File_def)
  show ?thesis
  proof (intro conjI impI)
    assume p: "parse_bool noconfirm = Inr False"
    show "prompts (snd (s3_delete parse_bool bucketname keyname noconfirm w)) =
            prompts w @ [''Remove '' @ keyname @ ''?'']"
      by (cases "answers w") (simp_all add: s3_delete_def b p confirm_def del)
  next
    assume "parse_bool noconfirm = Inr False \<and> answers w = False # rest"
    then show "s3_delete parse_bool bucketname keyname noconfirm w =
              (Inl (Abort ''Aborted''),
               w\<lparr>prompts := prompts w @ [''Remove '' @ keyname @ ''?''], answers := rest\<rparr>)"
      by (simp add: s3_delete_def b confirm_def)
  next
    assume "parse_bool noconfirm = Inr True"
    then show "s3_delete parse_bool bucketname keyname noconfirm w =
              (Inr (), w\<lparr>buckets := (buckets w)(bucketname \<mapsto> store(keyname := None))\<rparr>)"
      by (simp add: s3_delete_def b del)
  qed
qed

lemma demo_answers: "answers demo_world = False # []"
  by (simp add: demo_world_def)

lemma demo_prompts: "prompts demo_world = []"
  by (simp add: demo_world_def)

lemma demo_parse_bool_bool: "demo_parse_bool (PyBool b) = Inr b"
  by (simp add: demo_parse_bool_def)

theorem s3_delete_confirmation_witness:
  "buckets demo_world ''backup'' = Some demo_store \<and>
   demo_parse_bool (PyBool False) = Inr False \<and>
   demo_parse_bool (PyBool True) = Inr True \<and>
   answers demo_world = [False] \<and>
   s3_delete demo_parse_bool ''backup'' ''notes.txt'' (PyBool False) demo_world =
     (Inl (Abort ''Aborted''), demo_world\<lparr>prompts := [''Remove notes.txt?''], answers := []\<rparr>) \<and>
   s3_delete demo_parse_bool ''backup'' ''notes.txt'' (PyBool True) demo_world =
     (Inr (), demo_world\<lparr>buckets := [''backup'' \<mapsto> demo_store(''notes.txt'' := None)]\<rparr>)"
proof -
  have bk: "(buckets demo_world)(''backup'' \<mapsto> demo_store(''notes.txt'' := None)) =
              [''backup'' \<mapsto> demo_store(''notes.txt'' := None)]"
    by (simp add: demo_world_def)
  show ?thesis
    using s3_delete_confirmation [OF demo_bucket, of demo_parse_bool "PyBool False" "''notes.txt''" "[]"]
      s3_delete_confirmation [OF demo_bucket, of demo_parse_bool "PyBool True" "''notes.txt''" "[]"]
    by (simp add: demo_bucket demo_parse_bool_bool demo_answers demo_prompts bk)
qed

end
